theory Spec2Isabelle
  imports Complex_Main "HOL-Library.AList"
begin

section \<open>Data model of \<open>utils/mcp_client.py\<close>\<close>

text \<open>
  The manager is a Python object whose methods mutate dictionaries and lists and talk to
  subprocesses, the clock, the logger and registered callbacks. The model passes the
  manager around as a record. What the outside world answers (whether a stage of the
  handshake returns, times out or raises; what the clock reads) is an argument of each
  operation, and what the operation does to the outside world (log lines, callback
  invocations, transports opened and closed) is recorded in the last fields of the record.
  One operation runs at a time: the interleaving of coroutines is not modelled.

  Python dictionaries keep insertion order, so a dictionary is an association list:
  \<open>map_of\<close> reads it, \<open>AList.update\<close> is \<open>d[k] = v\<close> (in place for a present key, appended
  otherwise), \<open>AList.delete\<close> is \<open>del d[k]\<close>.
\<close>

type_synonym datetime = int \<comment> \<open>microseconds since the epoch, the resolution of \<open>datetime\<close>\<close>

type_synonym pyfloat = real \<comment> \<open>timeouts and durations; they are only copied and printed\<close>

datatype pyval =
    PNone
  | PBool bool
  | PInt int
  | PFloat pyfloat
  | PStr string
  | PList "pyval list"
  | PDict "(string \<times> pyval) list"

datatype 'a awaited = Done 'a | TimedOut | Raised string
  \<comment> \<open>what \<open>await asyncio.wait_for(...)\<close> does: returns, raises \<open>asyncio.TimeoutError\<close>, or
      raises another \<open>Exception\<close> whose \<open>str\<close> is the message\<close>

datatype exn = TimeoutError | KeyError string | Exception string

datatype level = ERROR | WARNING | INFO

record tool =
  t_name :: string
  t_description :: "string option"
  t_inputSchema :: pyval

record mcp_server =
  sid :: string \<comment> \<open>the field \<open>id\<close>\<close>
  name :: string
  description :: string
  command :: "string list"
  args :: "string list"
  env_vars :: "(string \<times> string) list"
  enabled :: bool
  auto_connect :: bool
  category :: string
  session :: "nat option"
  available_tools :: "tool list"
  status :: string
  last_error :: "string option"
  connected_at :: "datetime option"

text \<open>
  The fields \<open>process\<close>, \<open>stdin\<close> and \<open>stdout\<close> of \<open>MCPServer\<close> are never assigned and are
  left out. A session object is named by the handle of the exit stack that owns it.
\<close>

record call_record =
  cr_server_id :: string
  cr_server_name :: string
  cr_tool_name :: string
  cr_arguments :: "(string \<times> pyval) list"
  cr_timestamp :: datetime \<comment> \<open>stored as \<open>isoformat()\<close> and read back with \<open>fromisoformat\<close>\<close>
  cr_status :: string
  cr_result :: "pyval option"
  cr_error :: "string option"
  cr_duration :: "pyfloat option"

datatype event_data =
    ServerConnected string "tool list" \<comment> \<open>\<open>{'server_id', 'tools'}\<close>\<close>
  | ServerError string string \<comment> \<open>\<open>{'server_id', 'error'}\<close>\<close>
  | ServerDisconnected string \<comment> \<open>\<open>{'server_id'}\<close>\<close>
  | ToolCall call_record

text \<open>
  A callback is a Python callable. \<open>cb_run\<close> tells whether it returns (\<open>None\<close>) or raises an
  \<open>Exception\<close> (\<open>Some\<close> of its \<open>str\<close>) on a payload; \<open>cb_id\<close> names it in the record of
  invocations. Signals that are not \<open>Exception\<close>s (\<open>KeyboardInterrupt\<close>, \<open>SystemExit\<close>)
  are outside the model.
\<close>

datatype callback = Callback (cb_id: nat) (cb_run: "event_data \<Rightarrow> string option")

record server_params =
  sp_command :: string
  sp_args :: "string list"
  sp_env :: "(string \<times> string) list"

text \<open>A server entry of the JSON configuration file, and of the dictionary given to
  \<open>add_server\<close>: every key may be absent.\<close>

record server_config =
  cfg_name :: "string option"
  cfg_description :: "string option"
  cfg_command :: "string list option"
  cfg_args :: "string list option"
  cfg_env_vars :: "(string \<times> string) list option"
  cfg_enabled :: "bool option"
  cfg_auto_connect :: "bool option"
  cfg_category :: "string option"
  cfg_added_at :: "datetime option"

record config_settings =
  auto_reconnect :: bool
  connection_timeout :: pyfloat
  tool_timeout :: pyfloat
  session_init_timeout :: pyfloat
  list_tools_timeout :: pyfloat
  max_concurrent_tools :: int
  log_tool_calls :: bool
  updated_at :: datetime

record config =
  active_servers :: "(string \<times> server_config) list option"
  settings :: "config_settings option"

record manager =
  servers :: "(string \<times> mcp_server) list"
  active_connections :: "(string \<times> nat) list"
  tool_call_history :: "call_record list"
  event_callbacks :: "(string \<times> callback list) list"
  config_file :: "config option" \<comment> \<open>the content of \<open>config_path\<close>, \<open>None\<close> when it does not exist\<close>
  logged :: "(level \<times> string) list" \<comment> \<open>what was given to \<open>logger\<close>\<close>
  delivered :: "(nat \<times> string \<times> event_data) list" \<comment> \<open>callback invocations, in order\<close>
  next_stack :: nat \<comment> \<open>the number of \<open>AsyncExitStack\<close> objects created so far\<close>
  transports :: "(nat \<times> string \<times> server_params) list"
    \<comment> \<open>the \<open>stdio_client\<close> contexts entered: owning stack, server id, parameters\<close>
  closed :: "nat list" \<comment> \<open>the stacks whose \<open>aclose()\<close> returned\<close>

section \<open>Printing\<close>

fun str_nat :: "nat \<Rightarrow> string" where
  "str_nat n =
     (if n < 10 then [''0123456789'' ! n]
      else str_nat (n div 10) @ [''0123456789'' ! (n mod 10)])"

declare str_nat.simps [simp del]

section \<open>The event bus\<close>

text \<open>
  \<^verbatim>\<open>
  def on_event(self, event_type, callback):
      if event_type not in self.event_callbacks:
          self.event_callbacks[event_type] = []
      self.event_callbacks[event_type].append(callback)

  def _trigger_event(self, event_type, data):
      if event_type in self.event_callbacks:
          for callback in self.event_callbacks[event_type]:
              try:
                  callback(data)
              except Exception as e:
                  logger.error(f"Event callback error: {str(e)}")
  \<close>
\<close>

definition on_event :: "string \<Rightarrow> callback \<Rightarrow> manager \<Rightarrow> manager" where
  "on_event event_type cb s =
     (let cbs = (case map_of (event_callbacks s) event_type of None \<Rightarrow> [] | Some l \<Rightarrow> l)
      in s\<lparr>event_callbacks := AList.update event_type (cbs @ [cb]) (event_callbacks s)\<rparr>)"

fun run_callbacks :: "string \<Rightarrow> event_data \<Rightarrow> callback list \<Rightarrow> manager \<Rightarrow> manager" where
  "run_callbacks event_type d [] s = s"
| "run_callbacks event_type d (cb # cbs) s =
     (let s1 = s\<lparr>delivered := delivered s @ [(cb_id cb, event_type, d)]\<rparr>
      in case cb_run cb d of
           None \<Rightarrow> run_callbacks event_type d cbs s1
         | Some e \<Rightarrow>
             run_callbacks event_type d cbs
               (s1\<lparr>logged := logged s1 @ [(ERROR, ''Event callback error: '' @ e)]\<rparr>))"

definition trigger_event :: "string \<Rightarrow> event_data \<Rightarrow> manager \<Rightarrow> manager" where
  "trigger_event event_type d s =
     (case map_of (event_callbacks s) event_type of
        None \<Rightarrow> s
      | Some cbs \<Rightarrow> run_callbacks event_type d cbs s)"

text \<open>The handlers registered for a type, and the log lines their failures produce.\<close>

definition handlers_of :: "manager \<Rightarrow> string \<Rightarrow> callback list" where
  "handlers_of s event_type =
     (case map_of (event_callbacks s) event_type of None \<Rightarrow> [] | Some cbs \<Rightarrow> cbs)"

definition callback_errors :: "event_data \<Rightarrow> callback list \<Rightarrow> (level \<times> string) list" where
  "callback_errors d cbs =
     concat (map (\<lambda>cb. case cb_run cb d of
                          None \<Rightarrow> []
                        | Some e \<Rightarrow> [(ERROR, ''Event callback error: '' @ e)]) cbs)"

section \<open>Connecting and disconnecting\<close>

text \<open>What the outside world answers during one call of \<open>connect_server\<close>.\<close>

record connect_env =
  ce_sdk_installed :: bool \<comment> \<open>whether \<open>from mcp import ...\<close> succeeds\<close>
  ce_environ :: "(string \<times> string) list" \<comment> \<open>\<open>os.environ\<close>\<close>
  ce_stdio :: "unit awaited" \<comment> \<open>entering \<open>stdio_client\<close>, under \<open>timeout\<close>\<close>
  ce_session :: "unit awaited" \<comment> \<open>entering \<open>ClientSession\<close>, under 10 seconds\<close>
  ce_initialize :: "unit awaited" \<comment> \<open>\<open>session.initialize()\<close>, under 15 seconds\<close>
  ce_now :: datetime \<comment> \<open>\<open>datetime.now()\<close>\<close>
  ce_list_tools :: "tool list awaited" \<comment> \<open>\<open>session.list_tools()\<close>, under 10 seconds\<close>
  ce_aclose :: "string option"
    \<comment> \<open>\<open>aclose()\<close> in the handlers: \<open>None\<close> returns, \<open>Some e\<close> raises an \<open>Exception\<close>\<close>

definition dict_update :: "('k \<times> 'v) list \<Rightarrow> ('k \<times> 'v) list \<Rightarrow> ('k \<times> 'v) list" where
  "dict_update d e = foldl (\<lambda>acc (k, v). AList.update k v acc) d e"

definition modify_server :: "string \<Rightarrow> (mcp_server \<Rightarrow> mcp_server) \<Rightarrow> manager \<Rightarrow> manager" where
  \<comment> \<open>assignments to the fields of the object \<open>self.servers[server_id]\<close>\<close>
  "modify_server server_id f s = s\<lparr>servers := AList.map_entry server_id f (servers s)\<rparr>"

definition say :: "level \<Rightarrow> string \<Rightarrow> manager \<Rightarrow> manager" where
  "say lvl msg s = s\<lparr>logged := logged s @ [(lvl, msg)]\<rparr>"

definition make_server_params :: "(string \<times> string) list \<Rightarrow> mcp_server \<Rightarrow> server_params" where
  "make_server_params environ server =
     (let env = dict_update environ (env_vars server);
          full_command = command server @ args server
      in \<lparr>sp_command = (case full_command of [] \<Rightarrow> ''node'' | c # _ \<Rightarrow> c),
          sp_args = (case full_command of _ # a # rest \<Rightarrow> a # rest | _ \<Rightarrow> []),
          sp_env = env\<rparr>)"

text \<open>
  The body of the \<open>try\<close> block of \<open>connect_server\<close>: it returns a boolean (\<open>Inr\<close>), or
  leaves with an exception (\<open>Inl\<close>) that one of the two handlers takes. The status is set to
  \<open>connected\<close> and the timestamp taken before the tools are listed.
\<close>

definition connect_try :: "connect_env \<Rightarrow> string \<Rightarrow> mcp_server \<Rightarrow> manager \<Rightarrow> (exn + bool) \<times> manager" where
  "connect_try env server_id server s =
     (if \<not> ce_sdk_installed env then
        (Inr False,
         modify_server server_id
           (\<lambda>v. v\<lparr>status := ''error'', last_error := Some ''MCP SDK not installed''\<rparr>)
           (say ERROR ''MCP SDK not installed. Please install with: pip install mcp'' s))
      else
        (let server_params = make_server_params (ce_environ env) server;
             exit_stack = next_stack s;
             s1 = s\<lparr>next_stack := Suc exit_stack,
                    active_connections :=
                      AList.update server_id exit_stack (active_connections s)\<rparr>
         in (case ce_stdio env of
               TimedOut \<Rightarrow> (Inl TimeoutError, s1)
             | Raised e \<Rightarrow> (Inl (Exception e), s1)
             | Done _ \<Rightarrow>
                 (let s2 = s1\<lparr>transports :=
                               transports s1 @ [(exit_stack, server_id, server_params)]\<rparr>
                  in (case ce_session env of
                        TimedOut \<Rightarrow> (Inl TimeoutError, s2)
                      | Raised e \<Rightarrow> (Inl (Exception e), s2)
                      | Done _ \<Rightarrow>
                          (case ce_initialize env of
                             TimedOut \<Rightarrow> (Inl TimeoutError, s2)
                           | Raised e \<Rightarrow> (Inl (Exception e), s2)
                           | Done _ \<Rightarrow>
                               (let s3 = modify_server server_id
                                           (\<lambda>v. v\<lparr>session := Some exit_stack,
                                                  status := ''connected'',
                                                  connected_at := Some (ce_now env)\<rparr>) s2
                                in (case ce_list_tools env of
                                      TimedOut \<Rightarrow> (Inl TimeoutError, s3)
                                    | Raised e \<Rightarrow> (Inl (Exception e), s3)
                                    | Done tools \<Rightarrow>
                                        (let s4 = modify_server server_id
                                                    (\<lambda>v. v\<lparr>available_tools := tools\<rparr>) s3;
                                             s5 = say INFO
                                                    (''Connected to MCP server: '' @ name server @
                                                     '' with '' @ str_nat (length tools) @
                                                     '' tools'') s4
                                         in (Inr True,
                                             trigger_event ''server_connected''
                                               (ServerConnected server_id tools) s5))))))))))"

definition cleanup_connection :: "string option \<Rightarrow> string \<Rightarrow> manager \<Rightarrow> manager" where
  \<comment> \<open>\<open>if server_id in self.active_connections: try: await ...aclose(); del ... except Exception: pass\<close>\<close>
  "cleanup_connection aclose server_id s =
     (case map_of (active_connections s) server_id of
        None \<Rightarrow> s
      | Some exit_stack \<Rightarrow>
          (case aclose of
             Some _ \<Rightarrow> s
           | None \<Rightarrow> s\<lparr>closed := closed s @ [exit_stack],
                       active_connections := AList.delete server_id (active_connections s)\<rparr>))"

fun str_exn :: "exn \<Rightarrow> string" where
  "str_exn TimeoutError = []"
| "str_exn (KeyError k) = [CHR 0x27] @ k @ [CHR 0x27]"
| "str_exn (Exception e) = e"

definition connect_failed :: "string option \<Rightarrow> string \<Rightarrow> string \<Rightarrow> string \<Rightarrow> manager \<Rightarrow> manager" where
  \<comment> \<open>what both handlers do after the log line, with their message\<close>
  "connect_failed aclose server_id line msg s =
     trigger_event ''server_error'' (ServerError server_id msg)
       (cleanup_connection aclose server_id
          (modify_server server_id (\<lambda>v. v\<lparr>status := ''error'', last_error := Some msg\<rparr>)
             (say ERROR line s)))"

definition connect_server ::
  "(pyfloat \<Rightarrow> string) \<Rightarrow> connect_env \<Rightarrow> string \<Rightarrow> pyfloat \<Rightarrow> manager \<Rightarrow> bool \<times> manager" where
  "connect_server str_float env server_id timeout s =
     (case map_of (servers s) server_id of
        None \<Rightarrow> (False, say ERROR (''Server '' @ server_id @ '' not found'') s)
      | Some server \<Rightarrow>
          (case connect_try env server_id server s of
             (Inr b, s') \<Rightarrow> (b, s')
           | (Inl TimeoutError, s') \<Rightarrow>
               (False,
                connect_failed (ce_aclose env) server_id
                  (''Timeout connecting to server '' @ name server @ '' after '' @
                   str_float timeout @ '' seconds'')
                  (''Connection timeout after '' @ str_float timeout @ '' seconds'') s')
           | (Inl e, s') \<Rightarrow>
               (False,
                connect_failed (ce_aclose env) server_id
                  (''Failed to connect to server '' @ name server @ '': '' @ str_exn e)
                  (str_exn e) s')))"

text \<open>
  The exception with which the \<open>try\<close> block is left once the SDK is imported: that of the
  first stage, in the order in which the source awaits them, that does not return.
\<close>

definition first_failure :: "connect_env \<Rightarrow> exn option" where
  "first_failure env =
     (case ce_stdio env of
        TimedOut \<Rightarrow> Some TimeoutError
      | Raised e \<Rightarrow> Some (Exception e)
      | Done _ \<Rightarrow>
          (case ce_session env of
             TimedOut \<Rightarrow> Some TimeoutError
           | Raised e \<Rightarrow> Some (Exception e)
           | Done _ \<Rightarrow>
               (case ce_initialize env of
                  TimedOut \<Rightarrow> Some TimeoutError
                | Raised e \<Rightarrow> Some (Exception e)
                | Done _ \<Rightarrow>
                    (case ce_list_tools env of
                       TimedOut \<Rightarrow> Some TimeoutError
                     | Raised e \<Rightarrow> Some (Exception e)
                     | Done _ \<Rightarrow> None))))"

text \<open>
  \<open>disconnect_server\<close> returns nothing. Its argument \<open>aclose\<close> is what closing the exit
  stack does: \<open>None\<close> when it returns, \<open>Some e\<close> when it raises an \<open>Exception\<close>, which the
  handler logs. A close that raises is not counted as a release.
\<close>

definition disconnect_server :: "string option \<Rightarrow> string \<Rightarrow> manager \<Rightarrow> manager" where
  "disconnect_server aclose server_id s =
     (case map_of (active_connections s) server_id of
        None \<Rightarrow> s
      | Some exit_stack \<Rightarrow>
          (case aclose of
             Some e \<Rightarrow> say ERROR (''Error disconnecting from server '' @ server_id @ '': '' @ e) s
           | None \<Rightarrow>
               let s1 = s\<lparr>closed := closed s @ [exit_stack],
                          active_connections := AList.delete server_id (active_connections s)\<rparr>;
                   s2 = modify_server server_id
                          (\<lambda>v. v\<lparr>status := ''disconnected'', session := None,
                                 connected_at := None, available_tools := []\<rparr>) s1;
                   s3 = say INFO (''Disconnected from server: '' @ server_id) s2
               in trigger_event ''server_disconnected'' (ServerDisconnected server_id) s3))"

section \<open>Calling a tool\<close>

record tool_result =
  tr_content :: "pyval option" \<comment> \<open>the attribute \<open>content\<close>, when the result has one\<close>
  tr_str :: string \<comment> \<open>\<open>str(result)\<close>\<close>

record call_env =
  te_start :: datetime \<comment> \<open>\<open>datetime.now()\<close> when the record is made\<close>
  te_call :: "tool_result awaited" \<comment> \<open>\<open>session.call_tool\<close>, under \<open>timeout\<close>\<close>
  te_end :: datetime \<comment> \<open>\<open>datetime.now()\<close> when the call has returned or raised\<close>

record call_reply =
  r_success :: "bool option"
  r_error :: "string option"
  r_result :: "pyval option"
  r_duration :: "pyfloat option"

definition total_seconds :: "int \<Rightarrow> pyfloat" where
  "total_seconds us = real_of_int us / 1000000"

definition finish_call :: "string \<Rightarrow> nat \<Rightarrow> call_record \<Rightarrow> manager \<Rightarrow> manager" where
  \<comment> \<open>the record appended to the history is the object that is then updated and published\<close>
  "finish_call event_type i r s =
     trigger_event event_type (ToolCall r)
       (s\<lparr>tool_call_history := (tool_call_history s)[i := r]\<rparr>)"

definition call_tool ::
  "(pyfloat \<Rightarrow> string) \<Rightarrow> call_env \<Rightarrow> string \<Rightarrow> string \<Rightarrow> (string \<times> pyval) list \<Rightarrow> pyfloat \<Rightarrow>
     manager \<Rightarrow> call_reply \<times> manager" where
  "call_tool str_float env server_id tool_name arguments timeout s =
     (case map_of (servers s) server_id of
        None \<Rightarrow>
          (\<lparr>r_success = None, r_error = Some (''Server '' @ server_id @ '' not found''),
            r_result = None, r_duration = None\<rparr>, s)
      | Some server \<Rightarrow>
          (if status server \<noteq> ''connected'' \<or> session server = None then
             (\<lparr>r_success = None,
               r_error = Some (''Server '' @ name server @ '' is not connected''),
               r_result = None, r_duration = None\<rparr>, s)
           else
             (let call_record =
                    \<lparr>cr_server_id = server_id, cr_server_name = name server,
                     cr_tool_name = tool_name, cr_arguments = arguments,
                     cr_timestamp = te_start env, cr_status = ''executing'',
                     cr_result = None, cr_error = None, cr_duration = None\<rparr>;
                  i = length (tool_call_history s);
                  s1 = trigger_event ''tool_call_start'' (ToolCall call_record)
                         (s\<lparr>tool_call_history := tool_call_history s @ [call_record]\<rparr>)
              in (case te_call env of
                    Done result \<Rightarrow>
                      (let r = call_record
                             \<lparr>cr_status := ''completed'',
                              cr_result := Some (case tr_content result of
                                                   Some c \<Rightarrow> c
                                                 | None \<Rightarrow> PStr (tr_str result)),
                              cr_duration :=
                                Some (total_seconds (te_end env - te_start env))\<rparr>
                       in (\<lparr>r_success = Some True, r_error = None, r_result = cr_result r,
                            r_duration = cr_duration r\<rparr>,
                           finish_call ''tool_call_complete'' i r s1))
                  | TimedOut \<Rightarrow>
                      (let msg = ''Tool execution timed out after '' @ str_float timeout @
                                 '' seconds'';
                           r = call_record\<lparr>cr_status := ''failed'', cr_error := Some msg,
                                           cr_duration := Some timeout\<rparr>
                       in (\<lparr>r_success = Some False, r_error = Some msg, r_result = None,
                            r_duration = None\<rparr>,
                           finish_call ''tool_call_error'' i r
                             (say ERROR (''Tool execution timed out after '' @
                                         str_float timeout @ '' seconds: '' @ tool_name) s1)))
                  | Raised e \<Rightarrow>
                      (let r = call_record
                             \<lparr>cr_status := ''failed'', cr_error := Some e,
                              cr_duration :=
                                Some (total_seconds (te_end env - te_start env))\<rparr>
                       in (\<lparr>r_success = Some False, r_error = Some e, r_result = None,
                            r_duration = None\<rparr>,
                           finish_call ''tool_call_error'' i r
                             (say ERROR (''Tool execution failed: '' @ e) s1)))))))"

section \<open>The registry and its configuration file\<close>

definition dict_get :: "'a option \<Rightarrow> 'a \<Rightarrow> 'a" where
  \<comment> \<open>\<open>d.get(key, default)\<close>, given what the key holds\<close>
  "dict_get field dflt = (case field of None \<Rightarrow> dflt | Some v \<Rightarrow> v)"

definition server_of_config :: "string \<Rightarrow> server_config \<Rightarrow> mcp_server" where
  \<comment> \<open>the \<open>MCPServer(...)\<close> that \<open>load_config\<close> builds; the other fields take their defaults\<close>
  "server_of_config server_id c =
     \<lparr>sid = server_id,
      name = dict_get (cfg_name c) ''Unknown Server'',
      description = dict_get (cfg_description c) [],
      command = dict_get (cfg_command c) [],
      args = dict_get (cfg_args c) [],
      env_vars = dict_get (cfg_env_vars c) [],
      enabled = dict_get (cfg_enabled c) True,
      auto_connect = dict_get (cfg_auto_connect c) False,
      category = dict_get (cfg_category c) ''General'',
      session = None, available_tools = [], status = ''disconnected'',
      last_error = None, connected_at = None\<rparr>"

definition load_config :: "manager \<Rightarrow> manager" where
  "load_config s =
     (case config_file s of
        None \<Rightarrow> s
      | Some cfg \<Rightarrow>
          s\<lparr>servers :=
              foldl (\<lambda>acc (server_id, server_config).
                       AList.update server_id (server_of_config server_id server_config) acc)
                (servers s) (dict_get (active_servers cfg) [])\<rparr>)"

definition new_manager :: "config option \<Rightarrow> manager" where
  \<comment> \<open>\<open>MCPClientManager()\<close> in a process that finds \<open>file\<close> at \<open>config_path\<close>\<close>
  "new_manager file =
     load_config
       \<lparr>servers = [], active_connections = [], tool_call_history = [], event_callbacks = [],
        config_file = file, logged = [], delivered = [], next_stack = 0, transports = [],
        closed = []\<rparr>"

definition server_entry :: "datetime \<Rightarrow> mcp_server \<Rightarrow> server_config" where
  "server_entry now server =
     \<lparr>cfg_name = Some (name server), cfg_description = Some (description server),
      cfg_command = Some (command server), cfg_args = Some (args server),
      cfg_env_vars = Some (env_vars server), cfg_enabled = Some (enabled server),
      cfg_auto_connect = Some (auto_connect server), cfg_category = Some (category server),
      cfg_added_at = Some now\<rparr>"

text \<open>The file system takes every write, and the clock is read once for a whole save.\<close>

definition save_config :: "datetime \<Rightarrow> manager \<Rightarrow> manager" where
  "save_config now s =
     s\<lparr>config_file :=
         Some \<lparr>active_servers =
                 Some (foldl (\<lambda>acc (server_id, server).
                                AList.update server_id (server_entry now server) acc)
                         [] (servers s)),
               settings =
                 Some \<lparr>auto_reconnect = True, connection_timeout = 30, tool_timeout = 60,
                       session_init_timeout = 15, list_tools_timeout = 10,
                       max_concurrent_tools = 5, log_tool_calls = True,
                       updated_at = now\<rparr>\<rparr>\<rparr>"

text \<open>
  \<open>add_server\<close> reads \<open>name\<close> and \<open>command\<close> by subscript, which raises \<open>KeyError\<close> on an
  absent key, and the other keys with \<open>get\<close>. \<open>uuid\<close> is the fresh identifier that
  \<open>uuid.uuid4()\<close> returns.
\<close>

definition add_server :: "string \<Rightarrow> datetime \<Rightarrow> server_config \<Rightarrow> manager \<Rightarrow> (exn + string) \<times> manager" where
  "add_server uuid now server_config s =
     (case cfg_name server_config of
        None \<Rightarrow> (Inl (KeyError ''name''), s)
      | Some n \<Rightarrow>
          (case cfg_command server_config of
             None \<Rightarrow> (Inl (KeyError ''command''), s)
           | Some c \<Rightarrow>
               let server =
                     \<lparr>sid = uuid, name = n,
                      description = dict_get (cfg_description server_config) [],
                      command = c,
                      args = dict_get (cfg_args server_config) [],
                      env_vars = dict_get (cfg_env_vars server_config) [],
                      enabled = dict_get (cfg_enabled server_config) True,
                      auto_connect = dict_get (cfg_auto_connect server_config) False,
                      category = dict_get (cfg_category server_config) ''General'',
                      session = None, available_tools = [], status = ''disconnected'',
                      last_error = None, connected_at = None\<rparr>
               in (Inr uuid,
                   save_config now (s\<lparr>servers := AList.update uuid server (servers s)\<rparr>))))"


text \<open>The dictionary that \<open>get_server_status\<close> returns for a known id.\<close>

record server_status =
  st_id :: string
  st_name :: string
  st_description :: string
  st_status :: string
  st_category :: string
  st_env_vars :: "(string \<times> string) list"
  st_connected_at :: "datetime option" \<comment> \<open>printed with \<open>isoformat()\<close>\<close>
  st_available_tools :: "tool list"
  st_last_error :: "string option"

definition get_server_status :: "manager \<Rightarrow> string \<Rightarrow> string + server_status" where
  "get_server_status s server_id =
     (case map_of (servers s) server_id of
        None \<Rightarrow> Inl ''Server not found''
      | Some server \<Rightarrow>
          Inr \<lparr>st_id = sid server, st_name = name server, st_description = description server,
               st_status = status server, st_category = category server,
               st_env_vars = env_vars server, st_connected_at = connected_at server,
               st_available_tools = available_tools server,
               st_last_error = last_error server\<rparr>)"

definition get_all_servers :: "manager \<Rightarrow> (string + server_status) list" where
  "get_all_servers s = map (get_server_status s) (map fst (servers s))"

section \<open>The agent of \<open>utils/strands_mcp_agent.py\<close>\<close>

text \<open>
  \<open>FilteredMCPClient\<close> overrides two methods of the library class \<open>MCPClient\<close>; the
  overridden methods are arguments of the model. Keyword arguments and tool arguments are
  dictionaries from names to values.
\<close>

fun py_eq_zero :: "pyval \<Rightarrow> bool" where
  \<comment> \<open>\<open>v == 0\<close>: numbers compare by value, and \<open>False == 0\<close> holds in Python\<close>
  "py_eq_zero (PInt i) = (i = 0)"
| "py_eq_zero (PFloat x) = (x = 0)"
| "py_eq_zero (PBool b) = (\<not> b)"
| "py_eq_zero _ = False"

fun filter_items :: "(string \<times> pyval) list \<Rightarrow> (string \<times> pyval) list \<Rightarrow> (string \<times> pyval) list" where
  \<comment> \<open>the loop \<open>for k, v in kwargs.items()\<close>, with the dictionary built so far\<close>
  "filter_items [] filtered = filtered"
| "filter_items ((k, v) # items) filtered =
     (if v = PNone then filter_items items filtered
      else if k = ''offset'' \<and> py_eq_zero v then filter_items items filtered
      else filter_items items (AList.update k v filtered))"

definition call_tool_sync ::
  "(string \<Rightarrow> (string \<times> pyval) list \<Rightarrow> 'r) \<Rightarrow> string \<Rightarrow> (string \<times> pyval) list \<Rightarrow> 'r" where
  "call_tool_sync super_call_tool_sync tool_name kwargs =
     super_call_tool_sync tool_name (filter_items kwargs [])"

definition call_tool_async ::
  "(string \<Rightarrow> string \<Rightarrow> (string \<times> pyval) list option \<Rightarrow> 'k \<Rightarrow> 'r) \<Rightarrow>
     string \<Rightarrow> string \<Rightarrow> (string \<times> pyval) list option \<Rightarrow> 'k \<Rightarrow> 'r" where
  "call_tool_async super_call_tool_async tool_use_id tname arguments kwargs =
     (let filtered_arguments =
            (case arguments of
               None \<Rightarrow> arguments
             | Some [] \<Rightarrow> arguments
             | Some items \<Rightarrow> Some (filter_items items []))
      in super_call_tool_async tool_use_id tname filtered_arguments kwargs)"

record conn_info =
  ci_name :: string
  ci_description :: "string option"
  ci_status :: string
  ci_tools_count :: "nat option"
  ci_error :: "string option"

text \<open>The log lines of the agent and of the routes are not modelled.\<close>

record agent =
  mcp_servers :: "(string \<times> server_config) list"
  mcp_clients :: "(string \<times> nat) list" \<comment> \<open>clients, named by their creation number\<close>
  connected_servers :: "(string \<times> conn_info) list"
  clients_created :: nat
  client_sessions :: "(nat \<times> string \<times> server_params) list"
    \<comment> \<open>each \<open>with mcp_client:\<close> entered: client, server id, parameters of its transport\<close>

definition load_mcp_server_configs :: "config option \<Rightarrow> agent \<Rightarrow> agent" where
  "load_mcp_server_configs file a =
     (case file of
        None \<Rightarrow> a
      | Some cfg \<Rightarrow>
          foldl (\<lambda>acc (server_id, server_config).
                   if dict_get (cfg_enabled server_config) True
                   then acc\<lparr>mcp_servers := AList.update server_id server_config (mcp_servers acc)\<rparr>
                   else acc)
            a (dict_get (active_servers cfg) []))"

definition agent_connect_server ::
  "(string \<times> string) list \<Rightarrow> string + nat \<Rightarrow> string \<Rightarrow> agent \<Rightarrow> bool \<times> agent" where
  \<comment> \<open>\<open>StrandsMCPAgent.connect_server\<close>; \<open>probe\<close> is what listing the tools inside
      \<open>with mcp_client:\<close> does: \<open>Inr\<close> the number of tools, \<open>Inl\<close> the text of an exception\<close>
  "agent_connect_server environ probe server_id a =
     (case map_of (mcp_servers a) server_id of
        None \<Rightarrow> (False, a)
      | Some server_config \<Rightarrow>
          (if map_of (mcp_clients a) server_id \<noteq> None then (True, a)
           else
             (let cmd = dict_get (cfg_command server_config) [];
                  argv = dict_get (cfg_args server_config) [];
                  vars = dict_get (cfg_env_vars server_config) []
              in (if cmd = [] then (False, a)
                  else
                    (let env = dict_update environ vars;
                         full_command = cmd @ argv;
                         mcp_client = clients_created a;
                         a1 = a\<lparr>clients_created := Suc mcp_client,
                                client_sessions := client_sessions a @
                                  [(mcp_client, server_id,
                                    \<lparr>sp_command = hd full_command,
                                     sp_args = tl full_command,
                                     sp_env = env\<rparr>)]\<rparr>
                     in (case probe of
                           Inr tool_count \<Rightarrow>
                             (True,
                              a1\<lparr>mcp_clients :=
                                   AList.update server_id mcp_client (mcp_clients a1),
                                 connected_servers :=
                                   AList.update server_id
                                     \<lparr>ci_name = dict_get (cfg_name server_config)
                                                  (''Server '' @ server_id),
                                      ci_description =
                                        Some (dict_get (cfg_description server_config) []),
                                      ci_status = ''connected'',
                                      ci_tools_count = Some tool_count, ci_error = None\<rparr>
                                     (connected_servers a1)\<rparr>)
                         | Inl e \<Rightarrow>
                             (False,
                              a1\<lparr>connected_servers :=
                                   AList.update server_id
                                     \<lparr>ci_name = dict_get (cfg_name server_config)
                                                  (''Server '' @ server_id),
                                      ci_description = None, ci_status = ''error'',
                                      ci_tools_count = None, ci_error = Some e\<rparr>
                                     (connected_servers a1)\<rparr>)))))))"

section \<open>The route \<open>POST /servers\<close> of \<open>api/mcp_routes.py\<close>\<close>

record http_response =
  http_status :: nat
  body_success :: bool
  body_error :: "string option"
  body_server_id :: "string option"
  body_message :: "string option"

definition missing_field :: "server_config \<Rightarrow> string option" where
  \<comment> \<open>the loop over \<open>required_fields = ['name', 'command']\<close>\<close>
  "missing_field data =
     (if cfg_name data = None then Some ''name''
      else if cfg_command data = None then Some ''command''
      else None)"

definition route_add_server ::
  "string \<Rightarrow> datetime \<Rightarrow> server_config option \<Rightarrow> manager \<times> agent \<Rightarrow>
     http_response \<times> manager \<times> agent" where
  \<comment> \<open>\<open>request_json\<close> is \<open>request.json\<close>; on \<open>None\<close> the membership test raises \<open>TypeError\<close>,
      which the handler of the route turns into status 500; a body that is not JSON is
      outside the model\<close>
  "route_add_server uuid now request_json ma =
     (case ma of (m, a) \<Rightarrow>
       (case request_json of
          None \<Rightarrow>
            (\<lparr>http_status = 500, body_success = False,
              body_error = Some (''argument of type '' @ [CHR 0x27] @ ''NoneType'' @ [CHR 0x27] @
                                 '' is not iterable''),
              body_server_id = None, body_message = None\<rparr>, (m, a))
        | Some data \<Rightarrow>
            (case missing_field data of
               Some field \<Rightarrow>
                 (\<lparr>http_status = 400, body_success = False,
                   body_error = Some (''Missing required field: '' @ field),
                   body_server_id = None, body_message = None\<rparr>, (m, a))
             | None \<Rightarrow>
                 (case add_server uuid now data m of
                    (Inl e, m') \<Rightarrow>
                      (\<lparr>http_status = 500, body_success = False, body_error = Some (str_exn e),
                        body_server_id = None, body_message = None\<rparr>, (m', a))
                  | (Inr server_id, m') \<Rightarrow>
                      (\<lparr>http_status = 200, body_success = True, body_error = None,
                        body_server_id = Some server_id,
                        body_message =
                          Some (''Server '' @ [CHR 0x27] @ dict_get (cfg_name data) [] @
                                [CHR 0x27] @ '' added successfully'')\<rparr>,
                       (m', load_mcp_server_configs (config_file m') a))))))"

section \<open>Example values\<close>

definition demo_tool :: tool where
  "demo_tool = \<lparr>t_name = ''read_file'', t_description = Some ''Read a file'', t_inputSchema = PDict []\<rparr>"

definition demo_server :: mcp_server where
  "demo_server =
     \<lparr>sid = ''s1'', name = ''Files'', description = ''Local files'', command = [''npx''],
      args = [''-y'', ''fs-server''], env_vars = [(''ROOT'', ''/tmp'')], enabled = True,
      auto_connect = False, category = ''General'', session = None, available_tools = [],
      status = ''disconnected'', last_error = None, connected_at = None\<rparr>"

definition demo_callbacks :: "(string \<times> callback list) list" where
  "demo_callbacks =
     [(''server_disconnected'', [Callback 1 (\<lambda>_. None)]),
      (''tool_call_error'',
       [Callback 2 (\<lambda>_. None), Callback 3 (\<lambda>_. Some ''handler failed''),
        Callback 4 (\<lambda>_. None)])]"

definition demo_manager :: manager where
  "demo_manager =
     \<lparr>servers = [(''s1'', demo_server)], active_connections = [], tool_call_history = [],
      event_callbacks = demo_callbacks, config_file = None, logged = [], delivered = [],
      next_stack = 0, transports = [], closed = []\<rparr>"

definition demo_params :: server_params where
  "demo_params = \<lparr>sp_command = ''npx'', sp_args = [''-y'', ''fs-server''], sp_env = [(''ROOT'', ''/tmp'')]\<rparr>"

definition demo_live_server :: mcp_server where
  "demo_live_server =
     demo_server\<lparr>session := Some 0, available_tools := [demo_tool], status := ''connected'',
                 connected_at := Some 1000\<rparr>"

definition demo_connected :: manager where
  "demo_connected =
     demo_manager
       \<lparr>servers := [(''s1'', demo_live_server)], active_connections := [(''s1'', 0)],
        next_stack := 1, transports := [(0, ''s1'', demo_params)]\<rparr>"

definition demo_failed_server :: mcp_server where
  "demo_failed_server = demo_server\<lparr>status := ''error'', last_error := Some ''boom''\<rparr>"

definition demo_failed :: manager where
  "demo_failed = demo_manager\<lparr>servers := [(''s1'', demo_failed_server)], next_stack := 1\<rparr>"

definition demo_env :: connect_env where
  "demo_env =
     \<lparr>ce_sdk_installed = True, ce_environ = [], ce_stdio = Done (), ce_session = Done (),
      ce_initialize = Done (), ce_now = 2000, ce_list_tools = Done [demo_tool],
      ce_aclose = None\<rparr>"

definition demo_call_env :: call_env where
  "demo_call_env = \<lparr>te_start = 3000, te_call = TimedOut, te_end = 9000\<rparr>"

definition demo_str_float :: "pyfloat \<Rightarrow> string" where
  \<comment> \<open>Python's \<open>str\<close> at the two default timeouts\<close>
  "demo_str_float x = (if x = 60 then ''60.0'' else ''30.0'')"

definition demo_config :: server_config where
  "demo_config =
     \<lparr>cfg_name = Some ''Search'', cfg_description = None, cfg_command = Some [''uvx'', ''search''],
      cfg_args = None, cfg_env_vars = None, cfg_enabled = None, cfg_auto_connect = Some True,
      cfg_category = None, cfg_added_at = None\<rparr>"

definition demo_agent :: agent where
  "demo_agent =
     \<lparr>mcp_servers = [(''s1'', server_entry 0 demo_server)], mcp_clients = [(''s1'', 0)],
      connected_servers = [], clients_created = 1, client_sessions = [(0, ''s1'', demo_params)]\<rparr>"

section \<open>Properties of the event bus\<close>

lemma run_callbacks_eq:
  "run_callbacks et d cbs s =
     s\<lparr>logged := logged s @ callback_errors d cbs,
       delivered := delivered s @ map (\<lambda>cb. (cb_id cb, et, d)) cbs\<rparr>"
  by (induction cbs arbitrary: s) (simp_all add: Let_def callback_errors_def split: option.splits)

lemma trigger_event_eq:
  "trigger_event et d s =
     s\<lparr>logged := logged s @ callback_errors d (handlers_of s et),
       delivered := delivered s @ map (\<lambda>cb. (cb_id cb, et, d)) (handlers_of s et)\<rparr>"
  by (simp add: trigger_event_def handlers_of_def run_callbacks_eq callback_errors_def
      split: option.splits)

lemmas demo_defs =
  demo_manager_def demo_connected_def demo_failed_def demo_server_def demo_live_server_def
  demo_failed_server_def demo_env_def demo_callbacks_def demo_params_def demo_tool_def
  demo_str_float_def demo_call_env_def

lemmas connect_defs =
  connect_server_def connect_try_def connect_failed_def cleanup_connection_def
  make_server_params_def dict_update_def modify_server_def say_def trigger_event_eq
  handlers_of_def callback_errors_def

lemma servers_frame [simp]:
  "servers (trigger_event et d s) = servers s"
  "servers (say lvl msg s) = servers s"
  "servers (cleanup_connection aclose server_id s) = servers s"
  "servers (modify_server server_id f s) = AList.map_entry server_id f (servers s)"
  "servers (save_config now s) = servers s"
  by (simp_all add: trigger_event_eq say_def cleanup_connection_def modify_server_def
      save_config_def split: option.splits)

lemma active_connections_frame [simp]:
  "active_connections (trigger_event et d s) = active_connections s"
  "active_connections (say lvl msg s) = active_connections s"
  "active_connections (modify_server server_id f s) = active_connections s"
  by (simp_all add: trigger_event_eq say_def modify_server_def)

lemma map_of_map_entry_same:
  "map_of (AList.map_entry k f xs) k = map_option f (map_of xs k)"
  by (simp add: map_of_map_entry split: option.splits)

lemma map_of_map_entry_other:
  "k' \<noteq> k \<Longrightarrow> map_of (AList.map_entry k f xs) k' = map_of xs k'"
  by (simp add: map_of_map_entry)

lemma handlers_of_update [simp]:
  "handlers_of (s\<lparr>logged := l\<rparr>) et = handlers_of s et"
  "handlers_of (s\<lparr>delivered := dl\<rparr>) et = handlers_of s et"
  "handlers_of (s\<lparr>tool_call_history := h\<rparr>) et = handlers_of s et"
  "handlers_of (s\<lparr>servers := sv\<rparr>) et = handlers_of s et"
  "handlers_of (s\<lparr>active_connections := ac\<rparr>) et = handlers_of s et"
  "handlers_of (s\<lparr>closed := cl\<rparr>) et = handlers_of s et"
  "handlers_of (s\<lparr>transports := tr\<rparr>) et = handlers_of s et"
  "handlers_of (s\<lparr>next_stack := n\<rparr>) et = handlers_of s et"
  "handlers_of (s\<lparr>config_file := f\<rparr>) et = handlers_of s et"
  by (simp_all add: handlers_of_def)

text \<open>
  C7. Publishing an event invokes every handler registered for its type, in the order of
  registration and whatever the earlier handlers did: the invocations recorded are exactly
  one per registered handler. A handler that raises adds one error line to the log and
  nothing else; no other part of the manager changes. \<open>trigger_event\<close> always returns to
  the operation that called it, which goes on with the state it returns.
\<close>

theorem trigger_event_reaches_every_handler:
  "delivered (trigger_event et d s) =
     delivered s @ map (\<lambda>cb. (cb_id cb, et, d)) (handlers_of s et) \<and>
   logged (trigger_event et d s) = logged s @ callback_errors d (handlers_of s et) \<and>
   trigger_event et d s =
     s\<lparr>logged := logged (trigger_event et d s), delivered := delivered (trigger_event et d s)\<rparr>"
  by (simp add: trigger_event_eq)

text \<open>Three handlers, the second of which raises: all three are invoked, one line is logged.\<close>

lemma trigger_event_example:
  "delivered (trigger_event ''tool_call_error'' (ServerDisconnected ''s1'') demo_manager) =
     [(2, ''tool_call_error'', ServerDisconnected ''s1''),
      (3, ''tool_call_error'', ServerDisconnected ''s1''),
      (4, ''tool_call_error'', ServerDisconnected ''s1'')] \<and>
   logged (trigger_event ''tool_call_error'' (ServerDisconnected ''s1'') demo_manager) =
     [(ERROR, ''Event callback error: handler failed'')]"
  by (simp add: trigger_event_eq handlers_of_def callback_errors_def demo_manager_def
      demo_callbacks_def)

section \<open>Properties of \<open>call_tool\<close>\<close>

text \<open>
  C4. When the server id is unknown, or the server is not in status \<open>connected\<close> (or has no
  session), \<open>call_tool\<close> returns a dictionary holding only the key \<open>error\<close>, with the
  message "Server ... not found" or "Server ... is not connected", and the manager is
  exactly as before: nothing is appended to the history, no exit stack or transport is
  created, no handler is invoked.
\<close>

theorem call_tool_refuses_without_effect:
  "(map_of (servers s) server_id = None \<longrightarrow>
      call_tool str_float env server_id tool_name arguments timeout s =
        (\<lparr>r_success = None, r_error = Some (''Server '' @ server_id @ '' not found''),
          r_result = None, r_duration = None\<rparr>, s)) \<and>
   (\<forall>server. map_of (servers s) server_id = Some server \<and>
        (status server \<noteq> ''connected'' \<or> session server = None) \<longrightarrow>
      call_tool str_float env server_id tool_name arguments timeout s =
        (\<lparr>r_success = None, r_error = Some (''Server '' @ name server @ '' is not connected''),
          r_result = None, r_duration = None\<rparr>, s))"
  by (simp add: call_tool_def)

theorem call_tool_refuses_without_effect_witness:
  "map_of (servers demo_manager) ''nope'' = None \<and>
   call_tool demo_str_float demo_call_env ''nope'' ''read_file'' [] 60 demo_manager =
     (\<lparr>r_success = None, r_error = Some ''Server nope not found'',
       r_result = None, r_duration = None\<rparr>, demo_manager) \<and>
   map_of (servers demo_manager) ''s1'' = Some demo_server \<and>
   status demo_server \<noteq> ''connected'' \<and>
   call_tool demo_str_float demo_call_env ''s1'' ''read_file'' [] 60 demo_manager =
     (\<lparr>r_success = None, r_error = Some ''Server Files is not connected'',
       r_result = None, r_duration = None\<rparr>, demo_manager)"
proof -
  have a: "map_of (servers demo_manager) ''nope'' = None"
    by (simp add: demo_manager_def)
  have b: "map_of (servers demo_manager) ''s1'' = Some demo_server"
    by (simp add: demo_manager_def)
  have c: "status demo_server \<noteq> ''connected''"
    by (simp add: demo_server_def)
  have n: "name demo_server = ''Files''"
    by (simp add: demo_server_def)
  from call_tool_refuses_without_effect
         [of demo_manager "''nope''" demo_str_float demo_call_env "''read_file''" "[]" 60] a
  have 1: "call_tool demo_str_float demo_call_env ''nope'' ''read_file'' [] 60 demo_manager =
     (\<lparr>r_success = None, r_error = Some ''Server nope not found'',
       r_result = None, r_duration = None\<rparr>, demo_manager)" by simp
  from call_tool_refuses_without_effect
         [of demo_manager "''s1''" demo_str_float demo_call_env "''read_file''" "[]" 60] b c n
  have 2: "call_tool demo_str_float demo_call_env ''s1'' ''read_file'' [] 60 demo_manager =
     (\<lparr>r_success = None, r_error = Some ''Server Files is not connected'',
       r_result = None, r_duration = None\<rparr>, demo_manager)" by simp
  from a b c 1 2 show ?thesis by simp
qed

text \<open>
  C5. On a connected server, when the remote call times out: the reply is
  \<open>{'success': False, 'error': msg}\<close> where \<open>msg\<close> prints the timeout; the record appended to
  the history ends in status \<open>failed\<close> with that message and with the timeout itself as its
  duration; the handlers of \<open>tool_call_start\<close> have received the record as it was when
  executing, and after them the handlers of \<open>tool_call_error\<close> receive the failed record.
  The registry is untouched.
\<close>

theorem call_tool_timeout_is_recorded:
  "map_of (servers s) server_id = Some server \<Longrightarrow> status server = ''connected'' \<Longrightarrow>
   session server \<noteq> None \<Longrightarrow> te_call env = TimedOut \<Longrightarrow>
   (let msg = ''Tool execution timed out after '' @ str_float timeout @ '' seconds'';
        started = \<lparr>cr_server_id = server_id, cr_server_name = name server,
                   cr_tool_name = tool_name, cr_arguments = arguments,
                   cr_timestamp = te_start env, cr_status = ''executing'',
                   cr_result = None, cr_error = None, cr_duration = None\<rparr>;
        failed = started\<lparr>cr_status := ''failed'', cr_error := Some msg,
                         cr_duration := Some timeout\<rparr>;
        (reply, s') = call_tool str_float env server_id tool_name arguments timeout s
    in reply = \<lparr>r_success = Some False, r_error = Some msg, r_result = None,
                r_duration = None\<rparr> \<and>
       tool_call_history s' = tool_call_history s @ [failed] \<and>
       delivered s' =
         delivered s @
         map (\<lambda>cb. (cb_id cb, ''tool_call_start'', ToolCall started))
           (handlers_of s ''tool_call_start'') @
         map (\<lambda>cb. (cb_id cb, ''tool_call_error'', ToolCall failed))
           (handlers_of s ''tool_call_error'') \<and>
       servers s' = servers s \<and> active_connections s' = active_connections s)"
  by (simp add: call_tool_def Let_def finish_call_def trigger_event_eq say_def)

theorem call_tool_timeout_is_recorded_witness:
  "map_of (servers demo_connected) ''s1'' = Some demo_live_server \<and>
   status demo_live_server = ''connected'' \<and> session demo_live_server \<noteq> None \<and>
   te_call demo_call_env = TimedOut \<and>
   fst (call_tool demo_str_float demo_call_env ''s1'' ''read_file'' [] 60 demo_connected) =
     \<lparr>r_success = Some False, r_error = Some ''Tool execution timed out after 60.0 seconds'',
      r_result = None, r_duration = None\<rparr> \<and>
   map (\<lambda>r. (cr_status r, cr_error r, cr_duration r))
     (tool_call_history
        (snd (call_tool demo_str_float demo_call_env ''s1'' ''read_file'' [] 60 demo_connected))) =
     [(''failed'', Some ''Tool execution timed out after 60.0 seconds'', Some 60)] \<and>
   map fst
     (delivered
        (snd (call_tool demo_str_float demo_call_env ''s1'' ''read_file'' [] 60 demo_connected))) =
     [2, 3, 4]"
proof -
  have a: "map_of (servers demo_connected) ''s1'' = Some demo_live_server"
    by (simp add: demo_connected_def demo_manager_def)
  have b: "status demo_live_server = ''connected''" and c: "session demo_live_server \<noteq> None"
    by (simp_all add: demo_live_server_def)
  have d: "te_call demo_call_env = TimedOut"
    by (simp add: demo_call_env_def)
  have h: "handlers_of demo_connected ''tool_call_start'' = []"
    "map cb_id (handlers_of demo_connected ''tool_call_error'') = [2, 3, 4]"
    "tool_call_history demo_connected = []" "delivered demo_connected = []"
    by (simp_all add: handlers_of_def demo_connected_def demo_manager_def demo_callbacks_def)
  have f: "demo_str_float 60 = ''60.0''"
    by (simp add: demo_str_float_def)
  from call_tool_timeout_is_recorded
         [OF a b c d, of demo_str_float 60 "''read_file''" "[]"] h f
  have "fst (call_tool demo_str_float demo_call_env ''s1'' ''read_file'' [] 60 demo_connected) =
          \<lparr>r_success = Some False,
           r_error = Some ''Tool execution timed out after 60.0 seconds'',
           r_result = None, r_duration = None\<rparr> \<and>
        map (\<lambda>r. (cr_status r, cr_error r, cr_duration r))
          (tool_call_history
             (snd (call_tool demo_str_float demo_call_env ''s1'' ''read_file'' [] 60
                     demo_connected))) =
          [(''failed'', Some ''Tool execution timed out after 60.0 seconds'', Some 60)] \<and>
        map fst
          (delivered
             (snd (call_tool demo_str_float demo_call_env ''s1'' ''read_file'' [] 60
                     demo_connected))) = [2, 3, 4]"
    by (simp add: Let_def split_beta comp_def)
  with a b c d show ?thesis by simp
qed

section \<open>Properties of \<open>disconnect_server\<close>\<close>

text \<open>
  C6, as stated, fails where closing the exit stack raises: the handler logs the error and
  leaves the entry connected and its session registered, and a second call logs again.
\<close>

theorem disconnect_close_raises_counterexample:
  "map_of (active_connections demo_connected) ''s1'' = Some 0 \<and>
   map_option status
     (map_of (servers (disconnect_server (Some ''close failed'') ''s1'' demo_connected)) ''s1'') =
     Some ''connected'' \<and>
   map_of (active_connections (disconnect_server (Some ''close failed'') ''s1'' demo_connected))
     ''s1'' = Some 0 \<and>
   disconnect_server (Some ''close failed'') ''s1''
     (disconnect_server (Some ''close failed'') ''s1'' demo_connected) \<noteq>
   disconnect_server (Some ''close failed'') ''s1'' demo_connected"
proof -
  have "logged (disconnect_server (Some ''close failed'') ''s1''
                 (disconnect_server (Some ''close failed'') ''s1'' demo_connected)) \<noteq>
        logged (disconnect_server (Some ''close failed'') ''s1'' demo_connected)"
    by (simp add: disconnect_server_def say_def demo_defs)
  then have "disconnect_server (Some ''close failed'') ''s1''
               (disconnect_server (Some ''close failed'') ''s1'' demo_connected) \<noteq>
             disconnect_server (Some ''close failed'') ''s1'' demo_connected"
    by metis
  then show ?thesis
    by (simp add: disconnect_server_def say_def demo_defs)
qed

text \<open>
  C6, amended. \<open>disconnect_server\<close> always returns. For an id with no registered exit
  stack (unknown, never connected, already disconnected) it changes nothing. For an id with
  a registered exit stack whose close returns, it removes the stack from
  \<open>active_connections\<close> and counts it closed, sets the server entry (if any) to status
  \<open>disconnected\<close> with no session, no timestamp and no tools, invokes the handlers of
  \<open>server_disconnected\<close>, and a second call on the result changes nothing. When the close
  raises, the only effect is one error line in the log.
\<close>

theorem disconnect_server_cases:
  "(map_of (active_connections s) server_id = None \<longrightarrow>
      disconnect_server aclose server_id s = s) \<and>
   (\<forall>exit_stack. map_of (active_connections s) server_id = Some exit_stack \<longrightarrow>
      (let s' = disconnect_server None server_id s
       in map_of (active_connections s') server_id = None \<and>
          closed s' = closed s @ [exit_stack] \<and>
          map_of (servers s') server_id =
            map_option (\<lambda>v. v\<lparr>status := ''disconnected'', session := None,
                                connected_at := None, available_tools := []\<rparr>)
              (map_of (servers s) server_id) \<and>
          delivered s' =
            delivered s @
            map (\<lambda>cb. (cb_id cb, ''server_disconnected'', ServerDisconnected server_id))
              (handlers_of s ''server_disconnected'') \<and>
          disconnect_server aclose server_id s' = s') \<and>
      (\<forall>e. disconnect_server (Some e) server_id s =
             s\<lparr>logged := logged s @
                  [(ERROR, ''Error disconnecting from server '' @ server_id @ '': '' @ e)]\<rparr>))"
proof (intro conjI allI impI)
  assume "map_of (active_connections s) server_id = None"
  then show "disconnect_server aclose server_id s = s"
    by (simp add: disconnect_server_def)
next
  fix exit_stack e
  assume live: "map_of (active_connections s) server_id = Some exit_stack"
  then show "disconnect_server (Some e) server_id s =
             s\<lparr>logged := logged s @
                  [(ERROR, ''Error disconnecting from server '' @ server_id @ '': '' @ e)]\<rparr>"
    by (simp add: disconnect_server_def say_def)
next
  fix exit_stack
  assume live: "map_of (active_connections s) server_id = Some exit_stack"
  define s' where "s' = disconnect_server None server_id s"
  have gone: "map_of (active_connections s') server_id = None"
    using live by (simp add: s'_def disconnect_server_def Let_def delete_conv')
  have cl: "closed s' = closed s @ [exit_stack]"
    using live
    by (simp add: s'_def disconnect_server_def Let_def trigger_event_eq say_def modify_server_def)
  have sv: "map_of (servers s') server_id =
            map_option (\<lambda>v. v\<lparr>status := ''disconnected'', session := None,
                                connected_at := None, available_tools := []\<rparr>)
              (map_of (servers s) server_id)"
    using live by (simp add: s'_def disconnect_server_def Let_def map_of_map_entry_same)
  have dl: "delivered s' =
            delivered s @
            map (\<lambda>cb. (cb_id cb, ''server_disconnected'', ServerDisconnected server_id))
              (handlers_of s ''server_disconnected'')"
    using live
    by (simp add: s'_def disconnect_server_def Let_def trigger_event_eq say_def modify_server_def)
  have again: "disconnect_server aclose server_id s' = s'"
    using gone by (simp add: disconnect_server_def)
  from gone cl sv dl again
  show "let s' = disconnect_server None server_id s
        in map_of (active_connections s') server_id = None \<and>
           closed s' = closed s @ [exit_stack] \<and>
           map_of (servers s') server_id =
             map_option (\<lambda>v. v\<lparr>status := ''disconnected'', session := None,
                                 connected_at := None, available_tools := []\<rparr>)
               (map_of (servers s) server_id) \<and>
           delivered s' =
             delivered s @
             map (\<lambda>cb. (cb_id cb, ''server_disconnected'', ServerDisconnected server_id))
               (handlers_of s ''server_disconnected'') \<and>
           disconnect_server aclose server_id s' = s'"
    by (simp add: s'_def Let_def)
qed

theorem disconnect_server_cases_witness:
  "map_of (active_connections demo_manager) ''s1'' = None \<and>
   disconnect_server None ''s1'' demo_manager = demo_manager \<and>
   map_of (active_connections demo_connected) ''s1'' = Some 0 \<and>
   map_of (active_connections (disconnect_server None ''s1'' demo_connected)) ''s1'' = None \<and>
   closed (disconnect_server None ''s1'' demo_connected) = [0] \<and>
   map_option (\<lambda>v. (status v, session v, connected_at v, available_tools v))
     (map_of (servers (disconnect_server None ''s1'' demo_connected)) ''s1'') =
     Some (''disconnected'', None, None, []) \<and>
   delivered (disconnect_server None ''s1'' demo_connected) =
     [(1, ''server_disconnected'', ServerDisconnected ''s1'')] \<and>
   disconnect_server None ''s1'' (disconnect_server None ''s1'' demo_connected) =
     disconnect_server None ''s1'' demo_connected \<and>
   logged (disconnect_server (Some ''close failed'') ''s1'' demo_connected) =
     [(ERROR, ''Error disconnecting from server s1: close failed'')]"
proof -
  have a: "map_of (active_connections demo_manager) ''s1'' = None"
    by (simp add: demo_defs)
  have b: "map_of (active_connections demo_connected) ''s1'' = Some 0"
    by (simp add: demo_defs)
  have c: "closed demo_connected = []" "delivered demo_connected = []"
    "logged demo_connected = []"
    "map_of (servers demo_connected) ''s1'' = Some demo_live_server"
    "handlers_of demo_connected ''server_disconnected'' = [Callback 1 (\<lambda>_. None)]"
    by (simp_all add: demo_defs handlers_of_def)
  from disconnect_server_cases [of demo_manager "''s1''" None] a
  have 1: "disconnect_server None ''s1'' demo_manager = demo_manager"
    by simp
  from disconnect_server_cases [of demo_connected "''s1''" None] b c
  have 2: "map_of (active_connections (disconnect_server None ''s1'' demo_connected)) ''s1'' = None \<and>
     closed (disconnect_server None ''s1'' demo_connected) = [0] \<and>
     map_option (\<lambda>v. (status v, session v, connected_at v, available_tools v))
       (map_of (servers (disconnect_server None ''s1'' demo_connected)) ''s1'') =
       Some (''disconnected'', None, None, []) \<and>
     delivered (disconnect_server None ''s1'' demo_connected) =
       [(1, ''server_disconnected'', ServerDisconnected ''s1'')] \<and>
     disconnect_server None ''s1'' (disconnect_server None ''s1'' demo_connected) =
       disconnect_server None ''s1'' demo_connected \<and>
     logged (disconnect_server (Some ''close failed'') ''s1'' demo_connected) =
       [(ERROR, ''Error disconnecting from server s1: close failed'')]"
    by (simp add: Let_def)
  from a b 1 2 show ?thesis by simp
qed

section \<open>Properties of \<open>connect_server\<close>\<close>

text \<open>
  C1. The handlers of \<open>connect_server\<close> set status \<open>error\<close> and the message, and reset
  nothing else, while \<open>disconnect_server\<close> resets session, timestamp and tools. First
  input: a disconnected server whose transport and handshake succeed and whose tool listing
  times out; status and timestamp were set before the listing, so the entry ends in status
  \<open>error\<close> with \<open>connected_at\<close> set. Second input: a connected server with one tool, connected
  again, the launch raising; the entry ends in status \<open>error\<close> with its tools and
  timestamp kept.
\<close>

theorem connect_failure_keeps_timestamp_and_tools:
  "fst (connect_server demo_str_float (demo_env\<lparr>ce_list_tools := TimedOut\<rparr>) ''s1'' 30
          demo_manager) = False \<and>
   map_option (\<lambda>v. (status v, connected_at v))
     (map_of (servers (snd (connect_server demo_str_float (demo_env\<lparr>ce_list_tools := TimedOut\<rparr>)
                              ''s1'' 30 demo_manager))) ''s1'') =
     Some (''error'', Some 2000) \<and>
   map_option (\<lambda>v. (status v, connected_at v, available_tools v))
     (map_of (servers (snd (connect_server demo_str_float
                              (demo_env\<lparr>ce_stdio := Raised ''spawn failed''\<rparr>)
                              ''s1'' 30 demo_connected))) ''s1'') =
     Some (''error'', Some 1000, [demo_tool])"
  by (simp add: connect_defs demo_defs)

text \<open>
  C2. \<open>MCPClientManager.connect_server\<close> does not look at the status. On a connected
  server, with every stage succeeding, it returns true after creating a second exit stack
  and entering a second transport for the same id; the first stack is overwritten in
  \<open>active_connections\<close> and is never closed. When the launch times out instead, it returns
  false and puts the connected entry into status \<open>error\<close>.
\<close>

theorem connect_again_opens_second_transport:
  "fst (connect_server demo_str_float demo_env ''s1'' 30 demo_connected) = True \<and>
   map (\<lambda>t. (fst t, fst (snd t)))
     (transports (snd (connect_server demo_str_float demo_env ''s1'' 30 demo_connected))) =
     [(0, ''s1''), (1, ''s1'')] \<and>
   closed (snd (connect_server demo_str_float demo_env ''s1'' 30 demo_connected)) = [] \<and>
   active_connections (snd (connect_server demo_str_float demo_env ''s1'' 30 demo_connected)) =
     [(''s1'', 1)] \<and>
   fst (connect_server demo_str_float (demo_env\<lparr>ce_stdio := TimedOut\<rparr>) ''s1'' 30
          demo_connected) = False \<and>
   map_option status
     (map_of (servers (snd (connect_server demo_str_float (demo_env\<lparr>ce_stdio := TimedOut\<rparr>)
                              ''s1'' 30 demo_connected))) ''s1'') = Some ''error''"
  by (simp add: connect_defs demo_defs)

text \<open>The agent's \<open>connect_server\<close> has the check: for an id that already has a client it
  returns true and changes nothing.\<close>

lemma agent_connect_server_idempotent:
  "map_of (mcp_servers a) server_id = Some server_config \<Longrightarrow>
   map_of (mcp_clients a) server_id = Some mcp_client \<Longrightarrow>
   agent_connect_server environ probe server_id a = (True, a)"
  by (simp add: agent_connect_server_def)


lemma connect_try_leaves:
  "fst (connect_try env server_id server s) =
     (if \<not> ce_sdk_installed env then Inr False
      else case first_failure env of None \<Rightarrow> Inr True | Some e \<Rightarrow> Inl e)"
  by (simp add: connect_try_def first_failure_def Let_def split: awaited.splits)



section \<open>Properties of the registry\<close>

lemma update_fresh: "k \<notin> fst ` set al \<Longrightarrow> AList.update k v al = al @ [(k, v)]"
  by (induction al) auto

lemma foldl_update_distinct:
  "distinct (map fst xs) \<Longrightarrow> fst ` set acc \<inter> fst ` set xs = {} \<Longrightarrow>
   foldl (\<lambda>acc (k, v). AList.update k (g k v) acc) acc xs = acc @ map (\<lambda>(k, v). (k, g k v)) xs"
proof (induction xs arbitrary: acc)
  case Nil
  then show ?case by simp
next
  case (Cons x xs)
  obtain k v where x: "x = (k, v)" by (cases x)
  from Cons.prems have fresh: "k \<notin> fst ` set acc" by (auto simp: x)
  from Cons.prems have d: "distinct (map fst xs)" and nk: "k \<notin> fst ` set xs"
    by (auto simp: x)
  from Cons.prems nk have disj: "fst ` set (acc @ [(k, g k v)]) \<inter> fst ` set xs = {}"
    by (auto simp: x)
  show ?case
    using Cons.IH [OF d disj] by (simp add: x update_fresh [OF fresh])
qed

lemma foldl_update_fresh_map:
  "distinct (map fst xs) \<Longrightarrow>
   foldl (\<lambda>acc (k, v). AList.update k (g k v) acc) [] xs = map (\<lambda>(k, v). (k, g k v)) xs"
  using foldl_update_distinct [of xs "[]" g] by simp

lemma reload_servers:
  assumes "distinct (map fst (servers s))"
  shows "servers (new_manager (config_file (save_config now s))) =
         map (\<lambda>(k, v). (k, v\<lparr>sid := k, session := None, available_tools := [],
                               status := ''disconnected'', last_error := None,
                               connected_at := None\<rparr>)) (servers s)"
proof -
  have saved: "active_servers (the (config_file (save_config now s))) =
               Some (map (\<lambda>(k, v). (k, server_entry now v)) (servers s))"
    using foldl_update_fresh_map [OF assms, of "\<lambda>k v. server_entry now v"]
    by (simp add: save_config_def)
  have d: "distinct (map fst (map (\<lambda>(k, v). (k, server_entry now v)) (servers s)))"
    using assms by (simp add: comp_def split_beta)
  have undo: "\<And>k v. server_of_config k (server_entry now v) =
                v\<lparr>sid := k, session := None, available_tools := [],
                  status := ''disconnected'', last_error := None, connected_at := None\<rparr>"
    by (simp add: server_of_config_def server_entry_def dict_get_def)
  show ?thesis
    using saved foldl_update_fresh_map [OF d, of server_of_config]
    by (simp add: new_manager_def load_config_def save_config_def dict_get_def undo
        split_beta comp_def)
qed

text \<open>
  C8, as stated, fails for the listing: the dictionary of \<open>get_server_status\<close> has no
  entry for \<open>command\<close>, \<open>args\<close>, \<open>enabled\<close> and \<open>auto_connect\<close>. Two descriptors that
  differ in exactly these fields give the same listing.
\<close>

theorem listing_omits_launch_fields_counterexample:
  "cfg_command demo_config \<noteq> Some [''other''] \<and>
   get_all_servers (snd (add_server ''u1'' 0 demo_config demo_manager)) =
   get_all_servers
     (snd (add_server ''u1'' 0
             (demo_config\<lparr>cfg_command := Some [''other''], cfg_args := Some [''--flag''],
                           cfg_enabled := Some False, cfg_auto_connect := Some False\<rparr>)
             demo_manager))"
  by (simp add: add_server_def get_all_servers_def get_server_status_def demo_config_def
      demo_defs dict_get_def)

text \<open>
  C8, amended. For a descriptor with \<open>name\<close> and \<open>command\<close>, \<open>add_server\<close> returns the
  generated id and stores under it an entry whose eight descriptor fields are those of the
  descriptor, with the defaults for the absent ones, in status \<open>disconnected\<close>. The listing
  then holds an entry with that id whose \<open>name\<close>, \<open>description\<close>, \<open>category\<close> and \<open>env_vars\<close>
  are the descriptor's. A manager started on the file that was saved has the same ids in the
  same order with the same eight descriptor fields, and every runtime field at its default.
\<close>

theorem add_server_round_trip:
  "cfg_name server_config = Some n \<Longrightarrow> cfg_command server_config = Some c \<Longrightarrow>
   distinct (map fst (servers s)) \<Longrightarrow>
   (let (r, s') = add_server uuid now server_config s
    in r = Inr uuid \<and>
       map_of (servers s') uuid =
         Some \<lparr>sid = uuid, name = n,
               description = dict_get (cfg_description server_config) [],
               command = c,
               args = dict_get (cfg_args server_config) [],
               env_vars = dict_get (cfg_env_vars server_config) [],
               enabled = dict_get (cfg_enabled server_config) True,
               auto_connect = dict_get (cfg_auto_connect server_config) False,
               category = dict_get (cfg_category server_config) ''General'',
               session = None, available_tools = [], status = ''disconnected'',
               last_error = None, connected_at = None\<rparr> \<and>
       Inr \<lparr>st_id = uuid, st_name = n,
            st_description = dict_get (cfg_description server_config) [],
            st_status = ''disconnected'',
            st_category = dict_get (cfg_category server_config) ''General'',
            st_env_vars = dict_get (cfg_env_vars server_config) [],
            st_connected_at = None, st_available_tools = [], st_last_error = None\<rparr>
         \<in> set (get_all_servers s') \<and>
       servers (new_manager (config_file s')) =
         map (\<lambda>(k, v). (k, v\<lparr>sid := k, session := None, available_tools := [],
                               status := ''disconnected'', last_error := None,
                               connected_at := None\<rparr>)) (servers s'))"
proof -
  assume n: "cfg_name server_config = Some n" and c: "cfg_command server_config = Some c"
    and d: "distinct (map fst (servers s))"
  define server where "server =
         \<lparr>sid = uuid, name = n,
               description = dict_get (cfg_description server_config) [],
               command = c,
               args = dict_get (cfg_args server_config) [],
               env_vars = dict_get (cfg_env_vars server_config) [],
               enabled = dict_get (cfg_enabled server_config) True,
               auto_connect = dict_get (cfg_auto_connect server_config) False,
               category = dict_get (cfg_category server_config) ''General'',
               session = None, available_tools = [], status = ''disconnected'',
               last_error = None, connected_at = None\<rparr>"
  define s1 where "s1 = s\<lparr>servers := AList.update uuid server (servers s)\<rparr>"
  have res: "add_server uuid now server_config s = (Inr uuid, save_config now s1)"
    by (simp add: add_server_def n c s1_def server_def)
  have d1: "distinct (map fst (servers s1))"
    using d by (simp add: s1_def distinct_update)
  have look: "map_of (servers (save_config now s1)) uuid = Some server"
    by (simp add: s1_def update_conv')
  have key: "uuid \<in> set (map fst (servers (save_config now s1)))"
    using look by (metis map_of_eq_None_iff option.distinct(1) set_map)
  have listed: "get_server_status (save_config now s1) uuid \<in> set (get_all_servers (save_config now s1))"
    using key unfolding get_all_servers_def by (simp only: set_map) (rule imageI)
  have st: "get_server_status (save_config now s1) uuid =
       Inr \<lparr>st_id = uuid, st_name = n,
            st_description = dict_get (cfg_description server_config) [],
            st_status = ''disconnected'',
            st_category = dict_get (cfg_category server_config) ''General'',
            st_env_vars = dict_get (cfg_env_vars server_config) [],
            st_connected_at = None, st_available_tools = [], st_last_error = None\<rparr>"
    using look by (simp add: get_server_status_def server_def)
  have reload: "servers (new_manager (config_file (save_config now (save_config now s1)))) = 
     map (\<lambda>(k, v). (k, v\<lparr>sid := k, session := None, available_tools := [],
                               status := ''disconnected'', last_error := None,
                               connected_at := None\<rparr>)) (servers (save_config now s1))"
    using reload_servers [of "save_config now s1" now] d1 by simp
  have idem: "save_config now (save_config now s1) = save_config now s1"
    by (simp add: save_config_def)
  show ?thesis
    using look listed reload unfolding res st idem
    by (simp add: server_def)
qed

theorem add_server_round_trip_witness:
  "cfg_name demo_config = Some ''Search'' \<and> cfg_command demo_config = Some [''uvx'', ''search''] \<and>
   distinct (map fst (servers demo_manager)) \<and>
   fst (add_server ''u1'' 7 demo_config demo_manager) = Inr ''u1'' \<and>
   map_option (\<lambda>v. (name v, command v, args v, enabled v, auto_connect v, category v))
     (map_of (servers (snd (add_server ''u1'' 7 demo_config demo_manager))) ''u1'') =
     Some (''Search'', [''uvx'', ''search''], [], True, True, ''General'') \<and>
   servers (new_manager (config_file (snd (add_server ''u1'' 7 demo_config demo_manager)))) =
     map (\<lambda>(k, v). (k, v\<lparr>sid := k, session := None, available_tools := [],
                           status := ''disconnected'', last_error := None,
                           connected_at := None\<rparr>))
       (servers (snd (add_server ''u1'' 7 demo_config demo_manager)))"
proof -
  have a: "cfg_name demo_config = Some ''Search''"
    and b: "cfg_command demo_config = Some [''uvx'', ''search'']"
    by (simp_all add: demo_config_def)
  have c: "distinct (map fst (servers demo_manager))"
    by (simp add: demo_manager_def)
  have f: "cfg_args demo_config = None" "cfg_enabled demo_config = None"
    "cfg_auto_connect demo_config = Some True" "cfg_category demo_config = None"
    by (simp_all add: demo_config_def)
  from add_server_round_trip [OF a b c, of "''u1''" 7] f
  have "fst (add_server ''u1'' 7 demo_config demo_manager) = Inr ''u1'' \<and>
     map_option (\<lambda>v. (name v, command v, args v, enabled v, auto_connect v, category v))
       (map_of (servers (snd (add_server ''u1'' 7 demo_config demo_manager))) ''u1'') =
       Some (''Search'', [''uvx'', ''search''], [], True, True, ''General'') \<and>
     servers (new_manager (config_file (snd (add_server ''u1'' 7 demo_config demo_manager)))) =
       map (\<lambda>(k, v). (k, v\<lparr>sid := k, session := None, available_tools := [],
                             status := ''disconnected'', last_error := None,
                             connected_at := None\<rparr>))
         (servers (snd (add_server ''u1'' 7 demo_config demo_manager)))"
    by (simp add: Let_def split_beta dict_get_def)
  with a b c show ?thesis by simp
qed

text \<open>
  C9, as stated, fails for the manager: \<open>MCPClientManager.add_server\<close> reads the required
  keys by subscript and leaves with \<open>KeyError\<close> when one is absent.
\<close>

theorem add_server_missing_field_counterexample:
  "add_server ''u1'' 0 (demo_config\<lparr>cfg_name := None\<rparr>) demo_manager =
     (Inl (KeyError ''name''), demo_manager)"
  by (simp add: add_server_def demo_config_def)

text \<open>
  C9, amended. For a dictionary without \<open>name\<close> or without \<open>command\<close>, the route
  \<open>POST /servers\<close> answers with status 400 and the body
  \<open>{'success': False, 'error': 'Missing required field: ...'}\<close> naming the first absent
  key, and neither the manager nor the agent changes; \<open>MCPClientManager.add_server\<close> called
  with that dictionary raises \<open>KeyError\<close> for the same key and changes nothing.
\<close>

theorem missing_required_field:
  "cfg_name server_config = None \<or> cfg_command server_config = None \<Longrightarrow>
   (let field = (if cfg_name server_config = None then ''name'' else ''command'')
    in route_add_server uuid now (Some server_config) (m, a) =
         (\<lparr>http_status = 400, body_success = False,
           body_error = Some (''Missing required field: '' @ field),
           body_server_id = None, body_message = None\<rparr>, (m, a)) \<and>
       add_server uuid now server_config m = (Inl (KeyError field), m))"
  by (auto simp: route_add_server_def missing_field_def add_server_def Let_def split: option.splits)

theorem missing_required_field_witness:
  "(cfg_name (demo_config\<lparr>cfg_command := None\<rparr>) = None \<or>
    cfg_command (demo_config\<lparr>cfg_command := None\<rparr>) = None) \<and>
   route_add_server ''u1'' 7 (Some (demo_config\<lparr>cfg_command := None\<rparr>))
     (demo_manager, demo_agent) =
     (\<lparr>http_status = 400, body_success = False,
       body_error = Some ''Missing required field: command'',
       body_server_id = None, body_message = None\<rparr>, (demo_manager, demo_agent)) \<and>
   add_server ''u1'' 7 (demo_config\<lparr>cfg_command := None\<rparr>) demo_manager =
     (Inl (KeyError ''command''), demo_manager)"
proof -
  have a: "cfg_name (demo_config\<lparr>cfg_command := None\<rparr>) = None \<or>
           cfg_command (demo_config\<lparr>cfg_command := None\<rparr>) = None"
    by simp
  have n: "cfg_name (demo_config\<lparr>cfg_command := None\<rparr>) \<noteq> None"
    by (simp add: demo_config_def)
  from missing_required_field [OF a, of "''u1''" 7 demo_manager demo_agent] n
  show ?thesis by (simp add: Let_def)
qed

section \<open>Properties of the filtering client\<close>

lemma filter_items_distinct:
  "distinct (map fst items) \<Longrightarrow> fst ` set acc \<inter> fst ` set items = {} \<Longrightarrow>
   filter_items items acc =
     acc @ filter (\<lambda>(k, v). v \<noteq> PNone \<and> \<not> (k = ''offset'' \<and> py_eq_zero v)) items"
proof (induction items acc rule: filter_items.induct)
  case (1 filtered)
  then show ?case by simp
next
  case (2 k v items filtered)
  from "2.prems" have d: "distinct (map fst items)" and nk: "k \<notin> fst ` set items"
    and fresh: "k \<notin> fst ` set filtered"
    and disj: "fst ` set filtered \<inter> fst ` set items = {}"
    by auto
  from nk disj have disj': "fst ` set (filtered @ [(k, v)]) \<inter> fst ` set items = {}"
    by auto
  show ?case
    using "2.IH"(1) [OF _ d disj] "2.IH"(2) [OF _ _ d disj] "2.IH"(3) [OF _ _ d]  disj'
    by (auto simp: update_fresh [OF fresh])
qed

text \<open>
  C10. Both overrides hand to the method of \<open>MCPClient\<close> the arguments they were given
  without those whose value is \<open>None\<close> and without an argument named \<open>offset\<close> whose value
  equals 0 (Python's \<open>==\<close>, under which \<open>0\<close>, \<open>0.0\<close> and \<open>False\<close> equal 0); the other
  arguments keep their values and their order. The keys of a dictionary are distinct. When
  \<open>call_tool_async\<close> is given \<open>None\<close> for the arguments it passes \<open>None\<close> on.
\<close>

theorem filtered_client_drops_none_and_zero_offset:
  "distinct (map fst items) \<Longrightarrow>
   call_tool_sync super_sync tool_name items =
     super_sync tool_name
       (filter (\<lambda>(k, v). v \<noteq> PNone \<and> \<not> (k = ''offset'' \<and> py_eq_zero v)) items) \<and>
   call_tool_async super_async tool_use_id tname (Some items) kwargs =
     super_async tool_use_id tname
       (Some (filter (\<lambda>(k, v). v \<noteq> PNone \<and> \<not> (k = ''offset'' \<and> py_eq_zero v)) items))
       kwargs \<and>
   call_tool_async super_async tool_use_id tname None kwargs =
     super_async tool_use_id tname None kwargs"
  by (cases items)
    (simp_all add: call_tool_sync_def call_tool_async_def filter_items_distinct
      del: filter_items.simps)

theorem filtered_client_drops_none_and_zero_offset_witness:
  "distinct (map fst [(''path'', PStr ''/tmp''), (''limit'', PNone), (''offset'', PInt 0),
                      (''count'', PInt 0)]) \<and>
   call_tool_sync (\<lambda>tool_name kwargs. (tool_name, kwargs)) ''list''
     [(''path'', PStr ''/tmp''), (''limit'', PNone), (''offset'', PInt 0), (''count'', PInt 0)] =
     (''list'', [(''path'', PStr ''/tmp''), (''count'', PInt 0)]) \<and>
   call_tool_async (\<lambda>tool_use_id tname arguments kwargs. (tname, arguments)) ''t1'' ''list''
     (Some [(''path'', PStr ''/tmp''), (''limit'', PNone), (''offset'', PInt 0),
            (''count'', PInt 0)]) () =
     (''list'', Some [(''path'', PStr ''/tmp''), (''count'', PInt 0)])"
proof -
  have d: "distinct (map fst [(''path'', PStr ''/tmp''), (''limit'', PNone),
                              (''offset'', PInt 0), (''count'', PInt 0)])"
    by simp
  from filtered_client_drops_none_and_zero_offset
         [OF d, of "\<lambda>tool_name kwargs. (tool_name, kwargs)" "''list''"
            "\<lambda>tool_use_id tname arguments kwargs. (tname, arguments)" "''t1''" "''list''" "()"]
  show ?thesis by simp
qed

end
